theory Spec2Isabelle
  imports Main "HOL-Library.Finite_Map"
begin

section \<open>The port manager server (src/utils/PortManagerServer.ts)\<close>

subsection \<open>Constants, values and the registry object\<close>

text \<open>
  The three constants are imported from \<^verbatim>\<open>../constants/ports\<close>. Nothing in the server
  depends on their values, so every function that reads one takes them as a parameter.
\<close>

record ports =
  MIN_PORT_NUMBER :: int
  MAX_PORT_NUMBER :: int
  PORT_MANAGER_SERVER_PORT :: int

text \<open>
  Port numbers are JavaScript numbers; the model keeps the integers among them.
  \<^verbatim>\<open>serverPortMap\<close> is created by the object literal \<^verbatim>\<open>{}\<close>, so it is an ordinary
  object: the registry proper is the finite map of its own properties, and a property read
  \<^verbatim>\<open>this.serverPortMap[instanceId]\<close> that finds no own property continues in
  \<^verbatim>\<open>Object.prototype\<close>. Such a read therefore yields a number (own property), a function
  or object inherited from the prototype, or \<^verbatim>\<open>undefined\<close>.
\<close>

type_synonym ServerPortMap = "(string, int) fmap"

datatype jsvalue = Undefined | Number int | Inherited

text \<open>The property names of \<^verbatim>\<open>Object.prototype\<close> (ECMAScript, with its Annex B).\<close>

definition objectPrototypeKeys :: "string list" where
  "objectPrototypeKeys =
     [''constructor'', ''hasOwnProperty'', ''isPrototypeOf'', ''propertyIsEnumerable'',
      ''toLocaleString'', ''toString'', ''valueOf'', ''__proto__'',
      ''__defineGetter__'', ''__defineSetter__'', ''__lookupGetter__'', ''__lookupSetter__'']"

definition getProperty :: "ServerPortMap \<Rightarrow> string \<Rightarrow> jsvalue" where
  "getProperty m k =
     (case fmlookup m k of
        Some v \<Rightarrow> Number v
      | None \<Rightarrow> if k \<in> set objectPrototypeKeys then Inherited else Undefined)"

text \<open>The test \<^verbatim>\<open>if (v)\<close>: \<^verbatim>\<open>undefined\<close> and \<^verbatim>\<open>0\<close> are falsy, functions and objects are truthy.\<close>

fun truthy :: "jsvalue \<Rightarrow> bool" where
  "truthy Undefined = False"
| "truthy (Number n) = (n \<noteq> 0)"
| "truthy Inherited = True"

text \<open>
  The assignment \<^verbatim>\<open>m[k] = v\<close> creates or overwrites an own property, except for the key
  \<^verbatim>\<open>__proto__\<close>, whose inherited setter ignores a number. \<^verbatim>\<open>delete m[k]\<close> removes an own
  property and does nothing otherwise.
\<close>

definition assignProperty :: "ServerPortMap \<Rightarrow> string \<Rightarrow> int \<Rightarrow> ServerPortMap" where
  "assignProperty m k v = (if k = ''__proto__'' then m else fmupd k v m)"

definition deleteProperty :: "ServerPortMap \<Rightarrow> string \<Rightarrow> ServerPortMap" where
  "deleteProperty m k = fmdrop k m"

subsection \<open>The response object\<close>

text \<open>
  The bodies the handlers pass to \<^verbatim>\<open>res.send\<close>. The texts of the messages live in the
  language files, so a message is kept as its key together with its parameters.
\<close>

datatype body =
    Message409 string jsvalue
  | Message400
  | Message404 string
  | PortBody jsvalue
  | PortsBody "int list"
  | ServersBody ServerPortMap nat
  | OK

text \<open>
  What a handler can fail with: the error that the framework throws when \<^verbatim>\<open>send\<close> is
  called on a response that was sent already, and the rejection of a port detection.
\<close>

datatype reason = ERR_HTTP_HEADERS_SENT | DetectionError

text \<open>
  \<^verbatim>\<open>res\<close> carries the status code, which is 200 on a fresh response, and what was sent to
  the client. \<^verbatim>\<open>status\<close> sets the status code and never fails. \<^verbatim>\<open>send\<close> sends the body
  under the status code of that moment when nothing was sent before; on a response that
  was sent already it throws and leaves the response as it is.
\<close>

record Response =
  statusCode :: nat
  sent :: "(nat \<times> body) list"

definition newResponse :: Response where
  "newResponse = \<lparr>statusCode = 200, sent = []\<rparr>"

definition status :: "nat \<Rightarrow> Response \<Rightarrow> Response" where
  "status n res = res\<lparr>statusCode := n\<rparr>"

definition send :: "body \<Rightarrow> Response \<Rightarrow> reason + Response" where
  "send b res =
     (if sent res = [] then Inr (res\<lparr>sent := [(statusCode res, b)]\<rparr>)
      else Inl ERR_HTTP_HEADERS_SENT)"

text \<open>\<^verbatim>\<open>res.send(200)\<close>: the status code 200 with its standard text.\<close>

definition sendStatus :: "nat \<Rightarrow> Response \<Rightarrow> reason + Response" where
  "sendStatus n res = send OK (status n res)"

subsection \<open>The server object and its handlers\<close>

text \<open>
  The fields \<open>app\<close> and \<open>server\<close> tell whether \<^verbatim>\<open>this.app\<close> and \<^verbatim>\<open>this.server\<close> are
  set. A handler returns the server object as it leaves it; the handlers with a single
  \<^verbatim>\<open>send\<close> return its result with it.
\<close>

record PortManagerServer =
  app :: bool
  server :: bool
  serverPortMap :: ServerPortMap

definition constructor :: PortManagerServer where
  "constructor = \<lparr>app = False, server = False, serverPortMap = fmempty\<rparr>"

definition setPort :: "PortManagerServer \<Rightarrow> string \<Rightarrow> int \<Rightarrow> PortManagerServer" where
  "setPort this instanceId port =
     this\<lparr>serverPortMap := assignProperty (serverPortMap this) instanceId port\<rparr>"

definition deletePort :: "PortManagerServer \<Rightarrow> string \<Rightarrow> PortManagerServer" where
  "deletePort this instanceId =
     this\<lparr>serverPortMap := deleteProperty (serverPortMap this) instanceId\<rparr>"

definition send404 :: "Response \<Rightarrow> string \<Rightarrow> reason + Response" where
  "send404 res instanceId = send (Message404 instanceId) (status 404 res)"

text \<open>\<^verbatim>\<open>Object.keys(this.serverPortMap).length\<close> counts the own properties.\<close>

definition getServers ::
  "PortManagerServer \<Rightarrow> Response \<Rightarrow> PortManagerServer \<times> (reason + Response)" where
  "getServers this res =
     (this, send (ServersBody (serverPortMap this) (fcard (fmdom (serverPortMap this)))) res)"

definition getServerPortByInstanceId ::
  "PortManagerServer \<Rightarrow> string \<Rightarrow> Response \<Rightarrow> PortManagerServer \<times> (reason + Response)" where
  "getServerPortByInstanceId this instanceId res =
     (let port = getProperty (serverPortMap this) instanceId
      in if truthy port then (this, send (PortBody port) res)
         else (this, send404 res instanceId))"

definition deleteServerInstance ::
  "PortManagerServer \<Rightarrow> string \<Rightarrow> Response \<Rightarrow> PortManagerServer \<times> (reason + Response)" where
  "deleteServerInstance this instanceId res =
     (let port = getProperty (serverPortMap this) instanceId
      in if truthy port then (deletePort this instanceId, sendStatus 200 res)
         else (this, send404 res instanceId))"

text \<open>
  \<^verbatim>\<open>detectPort\<close> is an external collaborator that asks the operating system, so two calls
  with the same argument may differ. The model takes it as a parameter that also receives
  the number of calls made before in the same request; a call resolves with a port or is
  rejected.
\<close>

datatype 'a promise = Resolved 'a | Rejected reason

type_synonym detector = "nat \<Rightarrow> int option \<Rightarrow> int promise"

fun promise_all :: "'a promise list \<Rightarrow> 'a list promise" where
  "promise_all [] = Resolved []"
| "promise_all (Rejected r # ps) = Rejected r"
| "promise_all (Resolved x # ps) =
     (case promise_all ps of Rejected r \<Rightarrow> Rejected r | Resolved xs \<Rightarrow> Resolved (x # xs))"

text \<open>
  The test \<^verbatim>\<open>port && (port < MIN_PORT_NUMBER || port > MAX_PORT_NUMBER)\<close> on the optional
  field \<^verbatim>\<open>port\<close> of the request body.
\<close>

definition outsideRange :: "ports \<Rightarrow> int option \<Rightarrow> bool" where
  "outsideRange c port =
     (case port of
        None \<Rightarrow> False
      | Some p \<Rightarrow> p \<noteq> 0 \<and> (p < MIN_PORT_NUMBER c \<or> p > MAX_PORT_NUMBER c))"

text \<open>
  \<^verbatim>\<open>forEach\<close> calls its callback on the elements in order; an error thrown by the callback
  ends the loop and is thrown on.
\<close>

fun forEach :: "('a \<Rightarrow> 's \<Rightarrow> 'e + 's) \<Rightarrow> 'a list \<Rightarrow> 's \<Rightarrow> 'e + 's" where
  "forEach f [] s = Inr s"
| "forEach f (x # xs) s = (case f x s of Inl e \<Rightarrow> Inl e | Inr s' \<Rightarrow> forEach f xs s')"

text \<open>
  The callback of the first \<^verbatim>\<open>forEach\<close>, on the pair of the response and
  \<^verbatim>\<open>portPromises\<close>. When its \<^verbatim>\<open>send\<close> throws, the status code is set already, and the
  error is returned with the response of that moment.
\<close>

definition checkInstance ::
  "ports \<Rightarrow> detector \<Rightarrow> PortManagerServer \<Rightarrow> int option \<Rightarrow> string \<Rightarrow>
   Response \<times> int promise list \<Rightarrow> (reason \<times> Response) + (Response \<times> int promise list)" where
  "checkInstance c detectPort this port instanceId acc =
     (case acc of (res, portPromises) \<Rightarrow>
        if truthy (getProperty (serverPortMap this) instanceId)
        then
          (case send (Message409 instanceId (getProperty (serverPortMap this) instanceId))
                  (status 409 res) of
             Inl e \<Rightarrow> Inl (e, status 409 res)
           | Inr res' \<Rightarrow> Inr (res', portPromises))
        else if outsideRange c port
        then
          (case send Message400 (status 400 res) of
             Inl e \<Rightarrow> Inl (e, status 400 res)
           | Inr res' \<Rightarrow> Inr (res', portPromises))
        else Inr (res, portPromises @ [detectPort (length portPromises) port]))"

text \<open>
  The second \<^verbatim>\<open>forEach\<close>: the port at \<open>index\<close> goes to \<^verbatim>\<open>instanceIds[index]\<close>. Its
  callback does not throw.
\<close>

definition recordPorts :: "PortManagerServer \<Rightarrow> string list \<Rightarrow> int list \<Rightarrow> PortManagerServer" where
  "recordPorts this instanceIds ports =
     fold (\<lambda>(index, port) this'. setPort this' (instanceIds ! index) port)
       (List.enumerate 0 ports) this"

text \<open>
  The handler of POST /servers returns the server object, the response and how its promise
  settles. An error thrown in the first loop rejects the promise before any detection is
  awaited; a rejected detection rejects it before any port is recorded; an error thrown by
  the last \<^verbatim>\<open>send\<close> rejects it after the ports were recorded.
\<close>

definition assignPortsToServers ::
  "ports \<Rightarrow> detector \<Rightarrow> PortManagerServer \<Rightarrow> string list \<Rightarrow> int option \<Rightarrow> Response \<Rightarrow>
   PortManagerServer \<times> Response \<times> unit promise" where
  "assignPortsToServers c detectPort this instanceIds port res =
     (case forEach (checkInstance c detectPort this port) instanceIds (res, []) of
        Inl (e, res') \<Rightarrow> (this, res', Rejected e)
      | Inr (res', portPromises) \<Rightarrow>
          (case promise_all portPromises of
             Rejected e \<Rightarrow> (this, res', Rejected e)
           | Resolved ports \<Rightarrow>
               (case send (PortsBody ports) res' of
                  Inl e \<Rightarrow> (recordPorts this instanceIds ports, res', Rejected e)
                | Inr res'' \<Rightarrow> (recordPorts this instanceIds ports, res'', Resolved ()))))"

subsection \<open>Start-up\<close>

text \<open>
  An error as \<^verbatim>\<open>listen\<close> rejects with it, and what \<^verbatim>\<open>init\<close> throws:
  \<^verbatim>\<open>throwErrorWithMessage(identifier, interpolation, cause)\<close> builds its message from the
  language file, so the thrown error is kept as these three arguments; any other error is
  thrown again as it came.
\<close>

record BaseError =
  message :: string
  code :: "string option"

datatype thrown =
    ErrorWithMessage string "(string \<times> int) list" "BaseError option"
  | Rethrown BaseError

definition i18nKey :: string where
  "i18nKey = ''utils.PortManagerServer''"

text \<open>
  \<^verbatim>\<open>listen\<close> resolves with the server or rejects with the error event of the socket; which
  of the two happens is decided by the operating system and is a parameter here. In the
  template literal \<^verbatim>\<open>`${i18n}.portInUse`\<close> the name \<^verbatim>\<open>i18n\<close> is the translation function
  imported from \<^verbatim>\<open>./lang\<close>, so what is interpolated is the source text of that function,
  the parameter \<open>i18nText\<close>.
\<close>

datatype listened = Listening | ListenFailed BaseError

definition init ::
  "string \<Rightarrow> ports \<Rightarrow> PortManagerServer \<Rightarrow> listened \<Rightarrow>
   PortManagerServer \<times> thrown option" where
  "init i18nText c this listen =
     (if app this
      then (this, Some (ErrorWithMessage (i18nKey @ ''.duplicateInstance'') [] None))
      else
        (case listen of
           Listening \<Rightarrow> (this\<lparr>app := True, server := True\<rparr>, None)
         | ListenFailed error \<Rightarrow>
             if code error = Some ''EADDRINUSE''
             then (this\<lparr>app := True\<rparr>,
                   Some (ErrorWithMessage (i18nText @ ''.portInUse'')
                           [(''port'', PORT_MANAGER_SERVER_PORT c)] (Some error)))
             else (this\<lparr>app := True\<rparr>, Some (Rethrown error))))"

section \<open>Generated configurations (src/config/configUtils.ts)\<close>

text \<open>
  The \<^verbatim>\<open>value\<close> fields of the three auth methods are imported from
  \<^verbatim>\<open>../constants/auth\<close> and are parameters here.
\<close>

record auth =
  API_KEY_AUTH_METHOD :: string
  PERSONAL_ACCESS_KEY_AUTH_METHOD :: string
  OAUTH_AUTH_METHOD :: string

text \<open>
  The options argument has one of three object types, and \<^verbatim>\<open>generateConfig\<close> casts it to
  the type its \<^verbatim>\<open>switch\<close> selects without looking at it: a field that the object lacks
  is read as \<^verbatim>\<open>undefined\<close>. The model is the object with the fields of all three types,
  those that are not common to the three being optional.
\<close>

record 'env options =
  accountId :: int
  env :: 'env
  apiKey :: "string option"
  personalAccessKey :: "string option"
  clientId :: "string option"
  clientSecret :: "string option"
  refreshToken :: "string option"
  scopes :: "string list option"

datatype tokenInfo = TokenInfo "string option"

datatype oauth = OAuth "string option" "string option" "string list option" tokenInfo

text \<open>An account: \<^verbatim>\<open>authType\<close>, \<^verbatim>\<open>accountId\<close>, the credentials, \<^verbatim>\<open>env\<close>.\<close>

datatype 'env CLIAccount_NEW =
    APIKeyAccount_NEW string int "string option" 'env
  | PersonalAccessKeyAccount_NEW string int "string option" 'env
  | OAuthAccount_NEW string int oauth 'env

fun authType :: "'env CLIAccount_NEW \<Rightarrow> string" where
  "authType (APIKeyAccount_NEW t _ _ _) = t"
| "authType (PersonalAccessKeyAccount_NEW t _ _ _) = t"
| "authType (OAuthAccount_NEW t _ _ _) = t"

record 'env CLIConfig_NEW =
  accounts :: "'env CLIAccount_NEW list"

definition generatePersonalAccessKeyAccountConfig ::
  "auth \<Rightarrow> 'env options \<Rightarrow> 'env CLIAccount_NEW" where
  "generatePersonalAccessKeyAccountConfig a opts =
     PersonalAccessKeyAccount_NEW (PERSONAL_ACCESS_KEY_AUTH_METHOD a) (accountId opts)
       (personalAccessKey opts) (env opts)"

definition generateOauthAccountConfig :: "auth \<Rightarrow> 'env options \<Rightarrow> 'env CLIAccount_NEW" where
  "generateOauthAccountConfig a opts =
     OAuthAccount_NEW (OAUTH_AUTH_METHOD a) (accountId opts)
       (OAuth (clientId opts) (clientSecret opts) (scopes opts) (TokenInfo (refreshToken opts)))
       (env opts)"

definition generateApiKeyAccountConfig :: "auth \<Rightarrow> 'env options \<Rightarrow> 'env CLIAccount_NEW" where
  "generateApiKeyAccountConfig a opts =
     APIKeyAccount_NEW (API_KEY_AUTH_METHOD a) (accountId opts) (apiKey opts) (env opts)"

text \<open>
  \<^verbatim>\<open>null\<close> is \<open>None\<close>, and so is an absent options argument. The \<^verbatim>\<open>switch\<close> compares
  \<^verbatim>\<open>type\<close> with the three values in the order of its cases; the account it builds is
  an object, hence truthy, and is pushed onto the empty \<^verbatim>\<open>accounts\<close>.
\<close>

definition generateConfig ::
  "auth \<Rightarrow> string \<Rightarrow> 'env options option \<Rightarrow> 'env CLIConfig_NEW option" where
  "generateConfig a type options =
     (case options of
        None \<Rightarrow> None
      | Some opts \<Rightarrow>
          if type = API_KEY_AUTH_METHOD a
          then Some \<lparr>accounts = [] @ [generateApiKeyAccountConfig a opts]\<rparr>
          else if type = PERSONAL_ACCESS_KEY_AUTH_METHOD a
          then Some \<lparr>accounts = [] @ [generatePersonalAccessKeyAccountConfig a opts]\<rparr>
          else if type = OAUTH_AUTH_METHOD a
          then Some \<lparr>accounts = [] @ [generateOauthAccountConfig a opts]\<rparr>
          else None)"

section \<open>Inputs of the examples\<close>

text \<open>
  A port range and a coordination port for the examples (the unprivileged TCP ports), a
  detector that answers its \<open>k\<close>-th call with the port \<open>base + k\<close>, and the values of
  three auth methods with an options object.
\<close>

definition examplePorts :: ports where
  "examplePorts =
     \<lparr>MIN_PORT_NUMBER = 1024, MAX_PORT_NUMBER = 65535, PORT_MANAGER_SERVER_PORT = 8080\<rparr>"

definition detectFrom :: "int \<Rightarrow> detector" where
  "detectFrom base k desired = Resolved (base + int k)"

definition exampleAuth :: auth where
  "exampleAuth =
     \<lparr>API_KEY_AUTH_METHOD = ''apikey'',
      PERSONAL_ACCESS_KEY_AUTH_METHOD = ''personalaccesskey'',
      OAUTH_AUTH_METHOD = ''oauth2''\<rparr>"

definition exampleOptions :: "string options" where
  "exampleOptions =
     \<lparr>accountId = 123, env = ''prod'', apiKey = None, personalAccessKey = Some ''pak'',
      clientId = None, clientSecret = None, refreshToken = None, scopes = None\<rparr>"

section \<open>Properties of the port manager server\<close>

subsection \<open>The response object and the registry\<close>

lemma send_fresh:
  "sent res = [] \<Longrightarrow> send b res = Inr (res\<lparr>sent := [(statusCode res, b)]\<rparr>)"
  by (simp add: send_def)

lemma send_again: "sent res \<noteq> [] \<Longrightarrow> send b res = Inl ERR_HTTP_HEADERS_SENT"
  by (simp add: send_def)

lemma sent_status [simp]: "sent (status n res) = sent res"
  by (simp add: status_def)

lemma statusCode_status [simp]: "statusCode (status n res) = n"
  by (simp add: status_def)

lemma serverPortMap_setPort [simp]:
  "serverPortMap (setPort this i p) = assignProperty (serverPortMap this) i p"
  by (simp add: setPort_def)

lemma fcard_fmdom: "fcard (fmdom m) = card (dom (fmlookup m))"
  by (simp add: fcard.rep_eq fmdom.rep_eq)

lemma Undefined_not_proto: "getProperty m i = Undefined \<Longrightarrow> i \<noteq> ''__proto__''"
  by (auto simp: getProperty_def objectPrototypeKeys_def split: option.splits)

lemmas eval_defs = assignPortsToServers_def checkInstance_def recordPorts_def setPort_def
  assignProperty_def getProperty_def outsideRange_def send_def status_def newResponse_def
  constructor_def objectPrototypeKeys_def enumerate_eq_zip detectFrom_def
  examplePorts_def getServerPortByInstanceId_def deleteServerInstance_def deletePort_def
  deleteProperty_def send404_def sendStatus_def

subsection \<open>The first loop of the batch assignment\<close>

lemma checkInstance_detect:
  "\<not> truthy (getProperty (serverPortMap this) i) \<Longrightarrow> \<not> outsideRange c port \<Longrightarrow>
   checkInstance c d this port i (res, acc) = Inr (res, acc @ [d (length acc) port])"
  by (simp add: checkInstance_def)

lemma checkInstance_conflict_first:
  "truthy (getProperty (serverPortMap this) i) \<Longrightarrow> sent res = [] \<Longrightarrow>
   checkInstance c d this port i (res, acc) =
     Inr (\<lparr>statusCode = 409,
           sent = [(409, Message409 i (getProperty (serverPortMap this) i))]\<rparr>, acc)"
  by (simp add: checkInstance_def send_def status_def)

lemma checkInstance_outside_first:
  "\<not> truthy (getProperty (serverPortMap this) i) \<Longrightarrow> outsideRange c port \<Longrightarrow> sent res = [] \<Longrightarrow>
   checkInstance c d this port i (res, acc) =
     Inr (\<lparr>statusCode = 400, sent = [(400, Message400)]\<rparr>, acc)"
  by (simp add: checkInstance_def send_def status_def)

text \<open>An element that is skipped after a response was sent ends the loop.\<close>

lemma checkInstance_conflict_again:
  "truthy (getProperty (serverPortMap this) i) \<Longrightarrow> sent res \<noteq> [] \<Longrightarrow>
   checkInstance c d this port i (res, acc) = Inl (ERR_HTTP_HEADERS_SENT, status 409 res)"
  by (simp add: checkInstance_def send_def)

lemma checkInstance_outside_again:
  "\<not> truthy (getProperty (serverPortMap this) i) \<Longrightarrow> outsideRange c port \<Longrightarrow> sent res \<noteq> [] \<Longrightarrow>
   checkInstance c d this port i (res, acc) = Inl (ERR_HTTP_HEADERS_SENT, status 400 res)"
  by (simp add: checkInstance_def send_def)

lemma upt_from_Suc: "[n ..< Suc (n + m)] = n # [Suc n ..< Suc (n + m)]"
  by (simp add: upt_conv_Cons)

lemma forEach_checkInstance_none_skipped:
  "\<forall>i\<in>set ids. \<not> truthy (getProperty (serverPortMap this) i) \<Longrightarrow> \<not> outsideRange c port \<Longrightarrow>
   forEach (checkInstance c d this port) ids (res, acc) =
     Inr (res, acc @ map (\<lambda>k. d k port) [length acc ..< length acc + length ids])"
proof (induction ids arbitrary: acc)
  case Nil
  show ?case by simp
next
  case (Cons i ids)
  then show ?case
    by (simp add: checkInstance_detect upt_from_Suc del: upt_Suc)
qed

text \<open>
  At most one detection is requested for an element, so \<^verbatim>\<open>portPromises\<close> is never longer
  than \<^verbatim>\<open>instanceIds\<close> and the read \<^verbatim>\<open>instanceIds[index]\<close> of the second loop stays in
  range.
\<close>

lemma checkInstance_length:
  "checkInstance c d this port i (res, acc) = Inr (res', acc') \<Longrightarrow>
   length acc' \<le> Suc (length acc)"
  by (auto simp: checkInstance_def split: if_splits sum.splits)

lemma forEach_checkInstance_length:
  "forEach (checkInstance c d this port) ids (res, acc) = Inr (res', acc') \<Longrightarrow>
   length acc' \<le> length acc + length ids"
proof (induction ids arbitrary: res acc)
  case Nil
  then show ?case by simp
next
  case (Cons i ids)
  show ?case
  proof (cases "checkInstance c d this port i (res, acc)")
    case (Inl e)
    with Cons.prems show ?thesis by simp
  next
    case (Inr s)
    obtain res1 acc1 where s: "s = (res1, acc1)" by (cases s)
    with Inr Cons.prems have "forEach (checkInstance c d this port) ids (res1, acc1) = Inr (res', acc')"
      by simp
    then have "length acc' \<le> length acc1 + length ids" by (rule Cons.IH)
    moreover from Inr s have "length acc1 \<le> Suc (length acc)"
      by (auto dest: checkInstance_length)
    ultimately show ?thesis by simp
  qed
qed

text \<open>Once a response was sent, nothing the loop does changes what was sent.\<close>

lemma checkInstance_sent_kept:
  assumes "sent res \<noteq> []"
  shows "sent (case checkInstance c d this port i (res, acc) of
                 Inl (e, r) \<Rightarrow> r | Inr (r, ps) \<Rightarrow> r) = sent res"
  using assms by (simp add: checkInstance_def send_def)

lemma forEach_checkInstance_sent_kept:
  assumes "sent res \<noteq> []"
  shows "sent (case forEach (checkInstance c d this port) ids (res, acc) of
                 Inl (e, r) \<Rightarrow> r | Inr (r, ps) \<Rightarrow> r) = sent res"
  using assms
proof (induction ids arbitrary: res acc)
  case Nil
  show ?case by simp
next
  case (Cons i ids)
  show ?case
  proof (cases "checkInstance c d this port i (res, acc)")
    case (Inl x)
    with checkInstance_sent_kept [OF Cons.prems, of c d this port i acc] show ?thesis
      by simp
  next
    case (Inr s)
    obtain res1 acc1 where s: "s = (res1, acc1)" by (cases s)
    with Inr checkInstance_sent_kept [OF Cons.prems, of c d this port i acc]
    have kept: "sent res1 = sent res" by simp
    with Cons.prems have "sent res1 \<noteq> []" by simp
    from Cons.IH [OF this, of acc1] Inr s kept show ?thesis by simp
  qed
qed

text \<open>With a desired port outside the range, the loop requests no detection.\<close>

lemma forEach_checkInstance_outside:
  assumes "outsideRange c port"
    and "forEach (checkInstance c d this port) ids (res, acc) = Inr (res', acc')"
  shows "acc' = acc"
  using assms(2)
proof (induction ids arbitrary: res)
  case Nil
  then show ?case by simp
next
  case (Cons i ids)
  show ?case
  proof (cases "checkInstance c d this port i (res, acc)")
    case (Inl e)
    with Cons.prems show ?thesis by simp
  next
    case (Inr s)
    with assms(1) have "snd s = acc"
      by (auto simp: checkInstance_def split: if_splits sum.splits)
    with Inr Cons.prems have "forEach (checkInstance c d this port) ids (fst s, acc) = Inr (res', acc')"
      by (cases s) simp
    then show ?thesis by (rule Cons.IH)
  qed
qed

lemma promise_all_Resolved: "promise_all (map Resolved ps) = Resolved ps"
  by (induction ps) simp_all

subsection \<open>The second loop of the batch assignment\<close>

lemma recordPorts_Nil [simp]: "recordPorts this instanceIds [] = this"
  by (simp add: recordPorts_def)

lemma recordPorts_snoc:
  "recordPorts this instanceIds (ps @ [p]) =
     setPort (recordPorts this instanceIds ps) (instanceIds ! length ps) p"
  by (simp add: recordPorts_def enumerate_append_eq)

text \<open>An instance id beyond the first \<open>length ps\<close> ones keeps what it had.\<close>

lemma recordPorts_other:
  "i \<notin> set (take (length ps) instanceIds) \<Longrightarrow> length ps \<le> length instanceIds \<Longrightarrow>
   fmlookup (serverPortMap (recordPorts this instanceIds ps)) i = fmlookup (serverPortMap this) i"
proof (induction ps rule: rev_induct)
  case Nil
  then show ?case by simp
next
  case (snoc p ps)
  from snoc.prems have len: "length ps < length instanceIds" by simp
  then have "take (Suc (length ps)) instanceIds =
      take (length ps) instanceIds @ [instanceIds ! length ps]"
    by (simp add: take_Suc_conv_app_nth)
  with snoc.prems have "i \<notin> set (take (length ps) instanceIds)"
    and "instanceIds ! length ps \<noteq> i"
    by auto
  with snoc.IH len show ?case
    by (simp add: recordPorts_snoc assignProperty_def)
qed

text \<open>The port at position \<open>k\<close> is recorded against the instance id at position \<open>k\<close>.\<close>

lemma recordPorts_recorded:
  assumes "length ps \<le> length instanceIds"
    and "distinct (take (length ps) instanceIds)"
    and "k < length ps"
    and "instanceIds ! k \<noteq> ''__proto__''"
  shows "fmlookup (serverPortMap (recordPorts this instanceIds ps)) (instanceIds ! k) =
    Some (ps ! k)"
  using assms
proof (induction ps rule: rev_induct)
  case Nil
  then show ?case by simp
next
  case (snoc p ps)
  from snoc.prems have len: "length ps < length instanceIds" by simp
  then have "take (Suc (length ps)) instanceIds =
      take (length ps) instanceIds @ [instanceIds ! length ps]"
    by (simp add: take_Suc_conv_app_nth)
  with snoc.prems have dist: "distinct (take (length ps) instanceIds)"
    and fresh: "instanceIds ! length ps \<notin> set (take (length ps) instanceIds)"
    by auto
  show ?case
  proof (cases "k = length ps")
    case True
    with snoc.prems show ?thesis
      by (simp add: recordPorts_snoc assignProperty_def)
  next
    case False
    with snoc.prems have k: "k < length ps" by simp
    with len have "instanceIds ! k \<in> set (take (length ps) instanceIds)"
      by (metis in_set_conv_nth length_take min.absorb2 nth_take less_imp_le)
    with fresh have "instanceIds ! length ps \<noteq> instanceIds ! k" by auto
    with snoc.IH [OF _ dist k snoc.prems(4)] len k show ?thesis
      by (simp add: recordPorts_snoc assignProperty_def nth_append)
  qed
qed

subsection \<open>What the handler of a batch sends and records\<close>

text \<open>
  The response of the handler from the outcome of its first loop: when a response was
  sent in the loop, that is what was sent at the end.
\<close>

lemma assign_sent_of_loop:
  assumes "sent (case forEach (checkInstance c d this port) ids (res, []) of
                   Inl (e, r) \<Rightarrow> r | Inr (r, ps) \<Rightarrow> r) = s"
    and "s \<noteq> []"
  shows "sent (fst (snd (assignPortsToServers c d this ids port res))) = s"
  using assms
  by (auto simp: assignPortsToServers_def send_def split: sum.splits promise.splits prod.splits)

text \<open>
  When no instance id of the batch reads as assigned, the desired port passes the range
  test and every detection resolves, the handler answers a fresh response with the
  detected ports, status 200, and records them by position.
\<close>

lemma assign_none_skipped:
  assumes fresh: "\<forall>i\<in>set ids. \<not> truthy (getProperty (serverPortMap this) i)"
    and inside: "\<not> outsideRange c port"
    and det: "\<forall>k<length ids. d k port = Resolved (ps ! k)"
    and len: "length ps = length ids"
  shows "assignPortsToServers c d this ids port newResponse =
           (recordPorts this ids ps, \<lparr>statusCode = 200, sent = [(200, PortsBody ps)]\<rparr>,
            Resolved ())"
proof -
  have "map (\<lambda>k. d k port) [0..<length ids] = map Resolved ps"
    using det len by (intro nth_equalityI) simp_all
  with fresh inside show ?thesis
    by (simp add: assignPortsToServers_def forEach_checkInstance_none_skipped
        promise_all_Resolved send_def newResponse_def)
qed

text \<open>
  For distinct instance ids that read as \<^verbatim>\<open>undefined\<close> before, each of them then has the
  port of its position, and a later GET answers with it unless the port is \<open>0\<close>.
\<close>

lemma get_after_assign:
  assumes fresh: "\<forall>i\<in>set ids. getProperty (serverPortMap this) i = Undefined"
    and dist: "distinct ids"
    and len: "length ps = length ids"
    and k: "k < length ids"
    and nz: "ps ! k \<noteq> 0"
  shows "getServerPortByInstanceId (recordPorts this ids ps) (ids ! k) res =
           (recordPorts this ids ps, send (PortBody (Number (ps ! k))) res)"
proof -
  from fresh k have "ids ! k \<noteq> ''__proto__''"
    using Undefined_not_proto nth_mem by blast
  with dist len k
  have "fmlookup (serverPortMap (recordPorts this ids ps)) (ids ! k) = Some (ps ! k)"
    by (intro recordPorts_recorded) simp_all
  with nz show ?thesis
    by (simp add: getServerPortByInstanceId_def getProperty_def)
qed

text \<open>
  When the first instance id of the batch reads as assigned, the response is its 409,
  whatever follows in the batch.
\<close>

lemma first_conflict_gets_409:
  assumes "truthy (getProperty (serverPortMap this) i)"
  shows "sent (fst (snd (assignPortsToServers c d this (i # ids) port newResponse))) =
     [(409, Message409 i (getProperty (serverPortMap this) i))]"
proof -
  let ?r = "\<lparr>statusCode = 409,
             sent = [(409, Message409 i (getProperty (serverPortMap this) i))]\<rparr>"
  from assms have first: "checkInstance c d this port i (newResponse, []) = Inr (?r, [])"
    by (simp add: checkInstance_conflict_first newResponse_def)
  have "sent (case forEach (checkInstance c d this port) ids (?r, []) of
                Inl (e, r) \<Rightarrow> r | Inr (r, ps) \<Rightarrow> r) = sent ?r"
    by (rule forEach_checkInstance_sent_kept) simp
  with first show ?thesis
    by (intro assign_sent_of_loop) simp_all
qed

text \<open>
  With a desired port outside the range the handler records nothing, and when the first
  instance id of the batch does not read as assigned, the response is the 400.
\<close>

lemma assign_outside_unchanged:
  assumes "outsideRange c port"
  shows "fst (assignPortsToServers c d this ids port res) = this"
proof (cases "forEach (checkInstance c d this port) ids (res, [])")
  case (Inl x)
  then show ?thesis
    by (cases x) (simp add: assignPortsToServers_def)
next
  case (Inr s)
  obtain res' acc' where s: "s = (res', acc')" by (cases s)
  with Inr assms have "acc' = []"
    by (auto dest: forEach_checkInstance_outside)
  with Inr s show ?thesis
    by (simp add: assignPortsToServers_def split: sum.splits)
qed

lemma first_outside_gets_400:
  assumes "\<not> truthy (getProperty (serverPortMap this) i)" and "outsideRange c port"
  shows "sent (fst (snd (assignPortsToServers c d this (i # ids) port newResponse))) =
     [(400, Message400)]"
proof -
  let ?r = "\<lparr>statusCode = 400, sent = [(400, Message400)]\<rparr>"
  from assms have first: "checkInstance c d this port i (newResponse, []) = Inr (?r, [])"
    by (simp add: checkInstance_outside_first newResponse_def)
  have "sent (case forEach (checkInstance c d this port) ids (?r, []) of
                Inl (e, r) \<Rightarrow> r | Inr (r, ps) \<Rightarrow> r) = sent ?r"
    by (rule forEach_checkInstance_sent_kept) simp
  with first show ?thesis
    by (intro assign_sent_of_loop) simp_all
qed

text \<open>
  A second skipped element ends the handler in the first loop: of the batch \<open>b, c\<close> with
  the desired port 80 outside the range, \<open>b\<close> draws the 400 and \<open>c\<close> the error of the
  second \<^verbatim>\<open>send\<close>.
\<close>

lemma assign_second_error_throws:
  "assignPortsToServers examplePorts (detectFrom 3000) constructor [''b'', ''c''] (Some 80)
     newResponse =
   (constructor, \<lparr>statusCode = 400, sent = [(400, Message400)]\<rparr>,
    Rejected ERR_HTTP_HEADERS_SENT)"
  by (simp add: eval_defs)

subsection \<open>Single lookups and releases\<close>

lemma get_unassigned:
  "getProperty (serverPortMap this) i = Undefined \<Longrightarrow>
   getServerPortByInstanceId this i res = (this, send404 res i)"
  by (simp add: getServerPortByInstanceId_def)

lemma get_assigned:
  "fmlookup (serverPortMap this) i = Some p \<Longrightarrow> p \<noteq> 0 \<Longrightarrow>
   getServerPortByInstanceId this i res = (this, send (PortBody (Number p)) res)"
  by (simp add: getServerPortByInstanceId_def getProperty_def)

lemma delete_unassigned:
  "getProperty (serverPortMap this) i = Undefined \<Longrightarrow>
   deleteServerInstance this i res = (this, send404 res i)"
  by (simp add: deleteServerInstance_def)

lemma delete_assigned:
  assumes "fmlookup (serverPortMap this) i = Some p" and "p \<noteq> 0"
  shows "deleteServerInstance this i res = (deletePort this i, sendStatus 200 res)"
    and "fmlookup (serverPortMap (deletePort this i)) i = None"
    and "j \<noteq> i \<Longrightarrow>
      fmlookup (serverPortMap (deletePort this i)) j = fmlookup (serverPortMap this) j"
  using assms
  by (simp_all add: deleteServerInstance_def getProperty_def deletePort_def deleteProperty_def)

lemma get_after_delete:
  "i \<notin> set objectPrototypeKeys \<Longrightarrow>
   getServerPortByInstanceId (deletePort this i) i res = (deletePort this i, send404 res i)"
  by (simp add: getServerPortByInstanceId_def getProperty_def deletePort_def deleteProperty_def)

subsection \<open>Start-up failures other than the port in use\<close>

lemma init_other_error:
  "\<not> app this \<Longrightarrow> code error \<noteq> Some ''EADDRINUSE'' \<Longrightarrow>
   snd (init i18nText c this (ListenFailed error)) = Some (Rethrown error)"
  by (simp add: init_def)

lemma init_duplicate:
  "app this \<Longrightarrow>
   init i18nText c this listen =
     (this, Some (ErrorWithMessage ''utils.PortManagerServer.duplicateInstance'' [] None))"
  by (simp add: init_def i18nKey_def)


section \<open>The claims\<close>

subsection \<open>Batch assignment\<close>

text \<open>
  Claim C1 says that every detected port is recorded against the instance id it was
  detected for, also when some elements of the batch were skipped, and that the response
  lists the ports. The second loop pairs the port at position \<open>index\<close> of the detected
  ports with \<^verbatim>\<open>instanceIds[index]\<close>, so after a skipped element the ports move one
  instance id to the left. With \<open>a\<close> holding port 4000, the batch \<open>a, b, c\<close> detects 3000
  for \<open>b\<close> and 3001 for \<open>c\<close>; the handler records 3000 against \<open>a\<close> and 3001 against \<open>b\<close>,
  and nothing against \<open>c\<close>. The response is the 409 for \<open>a\<close>; the list of ports is not
  sent, the last \<^verbatim>\<open>send\<close> throws.
\<close>

theorem assignPortsToServers_shifts_ports_after_skip:
  "assignPortsToServers examplePorts (detectFrom 3000) (setPort constructor ''a'' 4000)
     [''a'', ''b'', ''c''] None newResponse =
   (setPort (setPort constructor ''a'' 3000) ''b'' 3001,
    \<lparr>statusCode = 409, sent = [(409, Message409 ''a'' (Number 4000))]\<rparr>,
    Rejected ERR_HTTP_HEADERS_SENT) \<and>
   fmlookup (serverPortMap (setPort (setPort constructor ''a'' 3000) ''b'' 3001)) ''a'' =
     Some 3000 \<and>
   fmlookup (serverPortMap (setPort (setPort constructor ''a'' 3000) ''b'' 3001)) ''b'' =
     Some 3001 \<and>
   fmlookup (serverPortMap (setPort (setPort constructor ''a'' 3000) ''b'' 3001)) ''c'' = None"
  by (simp add: eval_defs)

text \<open>
  Claim C2 says that an instance id that already has an assignment draws a 409 naming its
  port and keeps that port. The port detected for the next element is recorded at the
  position of the skipped one: with \<open>a\<close> holding port 4000, the batch \<open>a, b\<close> with the
  desired port 5000 answers 409 for port 4000 and leaves \<open>a\<close> with port 5000 and \<open>b\<close>
  without any.
\<close>

theorem assignPortsToServers_overwrites_conflicting_instance:
  "fmlookup (serverPortMap (setPort constructor ''a'' 4000)) ''a'' = Some 4000 \<and>
   assignPortsToServers examplePorts (detectFrom 5000) (setPort constructor ''a'' 4000)
     [''a'', ''b''] (Some 5000) newResponse =
   (setPort constructor ''a'' 5000,
    \<lparr>statusCode = 409, sent = [(409, Message409 ''a'' (Number 4000))]\<rparr>,
    Rejected ERR_HTTP_HEADERS_SENT) \<and>
   fmlookup (serverPortMap (setPort constructor ''a'' 5000)) ''a'' = Some 5000 \<and>
   fmlookup (serverPortMap (setPort constructor ''a'' 5000)) ''b'' = None"
  by (simp add: eval_defs)

text \<open>
  Claim C3 says that a batch of distinct instance ids without an assignment is answered
  with one port for each, retrievable afterwards. Lemmas \<open>assign_none_skipped\<close> and
  \<open>get_after_assign\<close> show this for instance ids that read as \<^verbatim>\<open>undefined\<close>. An instance
  id that is the name of a member of \<^verbatim>\<open>Object.prototype\<close> reads as that member, which is
  truthy: on the empty registry the batch \<open>valueOf\<close> is answered with 409, no port is
  detected and nothing is recorded.
\<close>

theorem assignPortsToServers_inherited_name:
  "fmlookup (serverPortMap constructor) ''valueOf'' = None \<and>
   assignPortsToServers examplePorts (detectFrom 3000) constructor [''valueOf''] None
       newResponse =
     (constructor,
      \<lparr>statusCode = 409, sent = [(409, Message409 ''valueOf'' Inherited)]\<rparr>,
      Rejected ERR_HTTP_HEADERS_SENT)"
  by (simp add: eval_defs)

text \<open>
  Claim C4 says that a desired port outside the range from \<^verbatim>\<open>MIN_PORT_NUMBER\<close> to
  \<^verbatim>\<open>MAX_PORT_NUMBER\<close> draws a 400 for each element that does not conflict and leaves the
  registry as it was. The range test is guarded by \<^verbatim>\<open>port &&\<close>, which the desired port
  0 does not pass: with the range from 1024 to 65535, the batch \<open>a\<close> with the desired
  port 0 is handed to the detector, answered with the detected port and recorded. And a
  request has one response: with \<open>a\<close> holding port 4000 and the desired port 80, the batch
  \<open>a, b\<close> is answered with the 409 for \<open>a\<close>, and no 400 is sent for \<open>b\<close>.
\<close>

theorem assignPortsToServers_port_zero_not_rejected:
  "0 < MIN_PORT_NUMBER examplePorts \<and>
   assignPortsToServers examplePorts (detectFrom 3000) constructor [''a''] (Some 0) newResponse =
     (setPort constructor ''a'' 3000, \<lparr>statusCode = 200, sent = [(200, PortsBody [3000])]\<rparr>,
      Resolved ()) \<and>
   serverPortMap (setPort constructor ''a'' 3000) \<noteq> serverPortMap constructor \<and>
   assignPortsToServers examplePorts (detectFrom 3000) (setPort constructor ''a'' 4000)
     [''a'', ''b''] (Some 80) newResponse =
     (setPort constructor ''a'' 4000,
      \<lparr>statusCode = 400, sent = [(409, Message409 ''a'' (Number 4000))]\<rparr>,
      Rejected ERR_HTTP_HEADERS_SENT)"
proof -
  have "fmlookup (serverPortMap (setPort constructor ''a'' 3000)) ''a'' \<noteq>
        fmlookup (serverPortMap constructor) ''a''"
    by (simp add: setPort_def constructor_def assignProperty_def)
  then have "serverPortMap (setPort constructor ''a'' 3000) \<noteq> serverPortMap constructor"
    by metis
  then show ?thesis
    by (simp add: eval_defs)
qed

text \<open>
  Claim C4, amended: for a desired port that is not 0 and lies outside the range, the
  server object and with it the registry is as before, and when the first instance id of
  the batch reads as \<^verbatim>\<open>undefined\<close>, what is sent to the client is the 400.
\<close>

theorem assignPortsToServers_outside_range:
  assumes "p \<noteq> 0" and "p < MIN_PORT_NUMBER c \<or> MAX_PORT_NUMBER c < p"
  shows "fst (assignPortsToServers c detectPort this instanceIds (Some p) newResponse) = this \<and>
    (instanceIds \<noteq> [] \<and> getProperty (serverPortMap this) (hd instanceIds) = Undefined \<longrightarrow>
       sent (fst (snd (assignPortsToServers c detectPort this instanceIds (Some p) newResponse))) =
         [(400, Message400)])"
proof -
  from assms have outside: "outsideRange c (Some p)"
    by (auto simp: outsideRange_def)
  then have "fst (assignPortsToServers c detectPort this instanceIds (Some p) newResponse) = this"
    by (rule assign_outside_unchanged)
  moreover have "sent (fst (snd (assignPortsToServers c detectPort this instanceIds (Some p)
      newResponse))) = [(400, Message400)]"
    if "instanceIds \<noteq> []" and "getProperty (serverPortMap this) (hd instanceIds) = Undefined"
  proof -
    from that obtain i ids where ids: "instanceIds = i # ids"
      and "\<not> truthy (getProperty (serverPortMap this) i)"
      by (cases instanceIds) auto
    with outside show ?thesis
      by (simp add: first_outside_gets_400)
  qed
  ultimately show ?thesis by blast
qed

text \<open>
  Claim C4, an instance of the amended statement: the desired port 80 with the range from
  1024 to 65535, on the batch \<open>b, a\<close> with \<open>a\<close> holding port 4000.
\<close>

theorem assignPortsToServers_outside_range_witness:
  "fst (assignPortsToServers examplePorts (detectFrom 3000) (setPort constructor ''a'' 4000)
          [''b'', ''a''] (Some 80) newResponse) = setPort constructor ''a'' 4000 \<and>
   sent (fst (snd (assignPortsToServers examplePorts (detectFrom 3000)
          (setPort constructor ''a'' 4000) [''b'', ''a''] (Some 80) newResponse))) =
     [(400, Message400)]"
  using assignPortsToServers_outside_range
    [of 80 examplePorts "detectFrom 3000" "setPort constructor ''a'' 4000" "[''b'', ''a'']"]
  by (simp add: examplePorts_def setPort_def constructor_def assignProperty_def getProperty_def
      objectPrototypeKeys_def)

text \<open>
  Claim C9: a batch without instance ids is answered with status 200 and the empty list
  of ports, and the server object, hence the registry, is as before.
\<close>

theorem assignPortsToServers_empty_batch:
  "assignPortsToServers c detectPort this [] port newResponse =
     (this, \<lparr>statusCode = 200, sent = [(200, PortsBody [])]\<rparr>, Resolved ())"
  by (simp add: assignPortsToServers_def newResponse_def send_def)

subsection \<open>Lookup, release and listing\<close>

text \<open>
  Claim C5 says that GET for an instance id without an assignment answers 404. This holds
  for an instance id that reads as \<^verbatim>\<open>undefined\<close> (lemma \<open>get_unassigned\<close>); the name of a
  member of \<^verbatim>\<open>Object.prototype\<close> reads as that member: on the empty registry, GET for
  \<open>constructor\<close> answers 200.
\<close>

theorem getServerPortByInstanceId_inherited_name:
  "fmlookup (serverPortMap constructor) ''constructor'' = None \<and>
   getServerPortByInstanceId constructor ''constructor'' newResponse =
     (constructor, Inr \<lparr>statusCode = 200, sent = [(200, PortBody Inherited)]\<rparr>)"
  by (simp add: eval_defs)

text \<open>
  Claim C6 says that DELETE for an instance id without an assignment answers 404. This
  holds for an instance id that reads as \<^verbatim>\<open>undefined\<close> (lemma \<open>delete_unassigned\<close>); on the
  empty registry, DELETE for \<open>toString\<close> confirms success with status 200.
\<close>

theorem deleteServerInstance_inherited_name:
  "fmlookup (serverPortMap constructor) ''toString'' = None \<and>
   deleteServerInstance constructor ''toString'' newResponse =
     (constructor, Inr \<lparr>statusCode = 200, sent = [(200, OK)]\<rparr>)"
  by (simp add: eval_defs)

text \<open>
  Claim C7: for every registry, GET /servers sends exactly one response, with status 200,
  the whole mapping and the number of instance ids that have a port in it, and the server
  object, hence the registry, is as before.
\<close>

theorem getServers_sends_registry_and_count:
  "getServers this newResponse =
     (this, Inr \<lparr>statusCode = 200,
                 sent = [(200, ServersBody (serverPortMap this)
                            (card (dom (fmlookup (serverPortMap this)))))]\<rparr>)"
  by (simp add: getServers_def newResponse_def send_def fcard_fmdom)

subsection \<open>Start-up\<close>

text \<open>
  Claim C8 says that a failed \<^verbatim>\<open>listen\<close> with the code \<^verbatim>\<open>EADDRINUSE\<close> makes \<^verbatim>\<open>init\<close> fail
  with the port-in-use message. \<^verbatim>\<open>init\<close> does throw an error of its own that carries the
  coordination port and the cause, but the identifier of its message starts with the
  source text of the function \<^verbatim>\<open>i18n\<close>; it is the identifier
  \<^verbatim>\<open>utils.PortManagerServer.portInUse\<close> only if that source text is the key itself.
\<close>

theorem init_port_in_use_identifier:
  "snd (init i18nText c constructor (ListenFailed \<lparr>message = m, code = Some ''EADDRINUSE''\<rparr>)) =
     Some (ErrorWithMessage (i18nText @ ''.portInUse'')
             [(''port'', PORT_MANAGER_SERVER_PORT c)]
             (Some \<lparr>message = m, code = Some ''EADDRINUSE''\<rparr>)) \<and>
   (i18nText @ ''.portInUse'' = i18nKey @ ''.portInUse'') = (i18nText = i18nKey)"
  by (simp add: init_def constructor_def)

section \<open>Properties of the generated configurations\<close>

text \<open>
  Claim C10: \<^verbatim>\<open>generateConfig\<close> returns \<^verbatim>\<open>null\<close> exactly when the options are absent or
  the type is none of the three auth methods; otherwise the accounts of the configuration
  it returns are one account, whose \<^verbatim>\<open>authType\<close> is the requested type.
\<close>

theorem generateConfig_null_iff:
  "(generateConfig a type options = None \<longleftrightarrow>
      options = None \<or>
      type \<notin> {API_KEY_AUTH_METHOD a, PERSONAL_ACCESS_KEY_AUTH_METHOD a, OAUTH_AUTH_METHOD a}) \<and>
   (options \<noteq> None \<and>
    type \<in> {API_KEY_AUTH_METHOD a, PERSONAL_ACCESS_KEY_AUTH_METHOD a, OAUTH_AUTH_METHOD a} \<longrightarrow>
      map_option (\<lambda>config. map authType (accounts config)) (generateConfig a type options) =
        Some [type])"
  by (cases options)
    (auto simp: generateConfig_def generateApiKeyAccountConfig_def
      generatePersonalAccessKeyAccountConfig_def generateOauthAccountConfig_def)

text \<open>
  Claim C10, instances: a personal access key with options, a type that is no auth
  method, and absent options.
\<close>

theorem generateConfig_null_iff_witness:
  "generateConfig exampleAuth ''personalaccesskey'' (Some exampleOptions) \<noteq> None \<and>
   map_option (\<lambda>config. map authType (accounts config))
     (generateConfig exampleAuth ''personalaccesskey'' (Some exampleOptions)) =
       Some [''personalaccesskey''] \<and>
   generateConfig exampleAuth ''password'' (Some exampleOptions) = None \<and>
   generateConfig exampleAuth ''personalaccesskey'' (None :: string options option) = None"
  using generateConfig_null_iff [of exampleAuth "''personalaccesskey''" "Some exampleOptions"]
    generateConfig_null_iff [of exampleAuth "''password''" "Some exampleOptions"]
    generateConfig_null_iff [of exampleAuth "''personalaccesskey''" "None :: string options option"]
  by (simp add: exampleAuth_def)

end
